theory Spec2Isabelle
  imports Complex_Main "HOL-Library.Word" "HOL-Library.Sublist"
begin

section \<open>JavaScript values used by the weather dashboard\<close>

text \<open>
  Exceptions are values: every \<^verbatim>\<open>throw\<close> of the source and every implicit
  \<^verbatim>\<open>TypeError\<close>/\<^verbatim>\<open>RangeError\<close> of the runtime is an \<open>Inl\<close> branch of the model.
  The string carried is the \<^verbatim>\<open>message\<close> property of the error object.
\<close>

datatype js_error = Error string | TypeError string | RangeError string | SyntaxError string

fun message :: "js_error \<Rightarrow> string" where
  "message (Error m) = m"
| "message (TypeError m) = m"
| "message (RangeError m) = m"
| "message (SyntaxError m) = m"

text \<open>
  \<^verbatim>\<open>Math.round\<close> rounds to the nearest integer, ties towards plus infinity.
  JavaScript numbers are modelled as reals: binary floating point rounding of the
  arithmetic itself is outside the model.
\<close>

definition Math_round :: "real \<Rightarrow> int" where
  "Math_round x = \<lfloor>x + 1 / 2\<rfloor>"

text \<open>
  \<^verbatim>\<open>String.prototype.toUpperCase\<close> and \<^verbatim>\<open>toLowerCase\<close> on the ASCII letters.
  A letter outside ASCII is left as it is here, where JavaScript maps it too; the
  functions are applied to the provider's condition names and to the place name of a
  successful reverse geocoding only.
\<close>

definition toUpperCase_char :: "char \<Rightarrow> char" where
  "toUpperCase_char c =
     (case map_of (zip ''abcdefghijklmnopqrstuvwxyz'' ''ABCDEFGHIJKLMNOPQRSTUVWXYZ'') c of
        Some u \<Rightarrow> u | None \<Rightarrow> c)"

definition toLowerCase_char :: "char \<Rightarrow> char" where
  "toLowerCase_char c =
     (case map_of (zip ''ABCDEFGHIJKLMNOPQRSTUVWXYZ'' ''abcdefghijklmnopqrstuvwxyz'') c of
        Some l \<Rightarrow> l | None \<Rightarrow> c)"

definition toUpperCase :: "string \<Rightarrow> string" where
  "toUpperCase s = map toUpperCase_char s"

definition toLowerCase :: "string \<Rightarrow> string" where
  "toLowerCase s = map toLowerCase_char s"

text \<open>Decimal rendering of a number inside a template literal.\<close>

definition digit_char :: "nat \<Rightarrow> char" where
  "digit_char n = ''0123456789'' ! (n mod 10)"

function show_nat :: "nat \<Rightarrow> string" where
  "show_nat n = (if n < 10 then [digit_char n] else show_nat (n div 10) @ [digit_char n])"
  by pat_completeness auto
termination
  by (relation "measure (\<lambda>n. n)") auto

definition show_int :: "int \<Rightarrow> string" where
  "show_int i = (if i < 0 then CHR ''-'' # show_nat (nat (- i)) else show_nat (nat i))"

text \<open>
  The outcome of an awaited \<^verbatim>\<open>fetch\<close>: the promise rejects (network failure), or
  it resolves to a response with \<^verbatim>\<open>ok\<close>, \<^verbatim>\<open>status\<close> and a body; \<open>json = None\<close>
  is a body on which \<^verbatim>\<open>response.json()\<close> rejects.
\<close>

datatype 'a fetch_result = Rejected | Response (ok: bool) (status: nat) (json: "'a option")

subsection \<open>Dates\<close>

text \<open>
  A \<^verbatim>\<open>Date\<close> is its time value in milliseconds since the epoch. The host's time
  zone is not part of the repository: \<open>tz\<close> gives the local offset in milliseconds at
  an instant (it may vary with the instant, as under daylight saving).
  \<^verbatim>\<open>toISOString().split('T')[0]\<close> yields the UTC calendar date; the model uses the
  number of the UTC day, which determines that date string and is determined by it.
\<close>

definition valid_time :: "int \<Rightarrow> bool" where
  "valid_time ms = (\<bar>ms\<bar> \<le> 8640000000000000)"

definition utc_day :: "int \<Rightarrow> int" where
  "utc_day ms = ms div 86400000"

definition getHours :: "(int \<Rightarrow> int) \<Rightarrow> int \<Rightarrow> int" where
  "getHours tz ms = ((ms + tz ms) div 3600000) mod 24"

definition getMinutes :: "(int \<Rightarrow> int) \<Rightarrow> int \<Rightarrow> int" where
  "getMinutes tz ms = ((ms + tz ms) div 60000) mod 60"

definition getDay :: "(int \<Rightarrow> int) \<Rightarrow> int \<Rightarrow> nat" where
  "getDay tz ms = nat (((ms + tz ms) div 86400000 + 4) mod 7)"

section \<open>lib/weather-service.ts\<close>

record ForecastDay =
  day :: string
  temp :: int
  condition :: string

text \<open>
  \<^verbatim>\<open>WeatherData\<close>; its field \<^verbatim>\<open>condition\<close> is \<open>current_condition\<close> here, the name
  \<open>condition\<close> being taken by \<^verbatim>\<open>ForecastDay\<close>.
\<close>

record WeatherData =
  location :: string
  temperature :: int
  current_condition :: string
  high :: int
  low :: int
  humidity :: real
  wind :: int
  visibility :: int
  forecast :: "ForecastDay list"

text \<open>
  The parts of the provider's JSON the code reads. \<open>c_weather\<close> and \<open>f_weather\<close>
  are the \<^verbatim>\<open>main\<close> strings of the \<^verbatim>\<open>weather\<close> array, in order;
  \<open>c_visibility = None\<close> is an absent \<^verbatim>\<open>visibility\<close> property.
\<close>

record CurrentData =
  c_weather :: "string list"
  c_temp :: real
  c_temp_max :: real
  c_temp_min :: real
  c_humidity :: real
  c_wind_speed :: real
  c_visibility :: "real option"

record ForecastItem =
  dt :: int
  f_temp :: real
  f_weather :: "string list"

definition DAYS :: "string list" where
  "DAYS = [''SUN'', ''MON'', ''TUE'', ''WED'', ''THU'', ''FRI'', ''SAT'']"

text \<open>
  \<^verbatim>\<open>forecastsByDay\<close>: an object whose keys are date strings, enumerated by
  \<^verbatim>\<open>Object.keys\<close> in insertion order. An association list in order of first
  insertion; \<open>push_day\<close> is \<^verbatim>\<open>if (!forecastsByDay[day]) forecastsByDay[day] = [];
  forecastsByDay[day].push(item)\<close>.
\<close>

fun push_day :: "int \<Rightarrow> ForecastItem \<Rightarrow> (int \<times> ForecastItem list) list
    \<Rightarrow> (int \<times> ForecastItem list) list" where
  "push_day k x [] = [(k, [x])]"
| "push_day k x ((k', xs) # g) =
     (if k = k' then (k', xs @ [x]) # g else (k', xs) # push_day k x g)"

fun group_forecasts :: "ForecastItem list \<Rightarrow> (int \<times> ForecastItem list) list
    \<Rightarrow> js_error + (int \<times> ForecastItem list) list" where
  "group_forecasts [] acc = Inr acc"
| "group_forecasts (item # rest) acc =
     (if \<not> valid_time (dt item * 1000) then Inl (RangeError ''Invalid time value'')
      else group_forecasts rest (push_day (utc_day (dt item * 1000)) item acc))"

text \<open>
  One entry per day: \<^verbatim>\<open>items.find(...) || items[0]\<close>, then the entry made from it.
  Reading \<^verbatim>\<open>.dt\<close> of an undefined item and \<^verbatim>\<open>.main\<close> of an undefined
  \<^verbatim>\<open>weather[0]\<close> throw.
\<close>

definition is_noon :: "(int \<Rightarrow> int) \<Rightarrow> ForecastItem \<Rightarrow> bool" where
  "is_noon tz item = (getHours tz (dt item * 1000) \<ge> 11 \<and> getHours tz (dt item * 1000) \<le> 13)"

definition noonForecast :: "(int \<Rightarrow> int) \<Rightarrow> ForecastItem list \<Rightarrow> js_error + ForecastItem" where
  "noonForecast tz items =
     (case find (is_noon tz) items of
        Some item \<Rightarrow> Inr item
      | None \<Rightarrow> (case items of
                   [] \<Rightarrow> Inl (TypeError ''noonForecast is undefined'')
                 | item # _ \<Rightarrow> Inr item))"

definition forecast_entry :: "(int \<Rightarrow> int) \<Rightarrow> ForecastItem \<Rightarrow> js_error + ForecastDay" where
  "forecast_entry tz nf =
     (case f_weather nf of
        [] \<Rightarrow> Inl (TypeError ''weather[0] is undefined'')
      | w # _ \<Rightarrow> Inr \<lparr> day = DAYS ! getDay tz (dt nf * 1000),
                       temp = Math_round (f_temp nf),
                       condition = toLowerCase w \<rparr>)"

fun process_days :: "(int \<Rightarrow> int) \<Rightarrow> (int \<times> ForecastItem list) list \<Rightarrow> ForecastDay list
    \<Rightarrow> js_error + ForecastDay list" where
  "process_days tz [] processedForecast = Inr processedForecast"
| "process_days tz ((d, items) # rest) processedForecast =
     (case noonForecast tz items of
        Inl e \<Rightarrow> Inl e
      | Inr nf \<Rightarrow> (case forecast_entry tz nf of
                     Inl e \<Rightarrow> Inl e
                   | Inr fd \<Rightarrow> process_days tz rest (processedForecast @ [fd])))"

text \<open>
  The padding loop. \<^verbatim>\<open>setDate(getDate() + k)\<close> moves the local calendar date of
  the current instant \<open>now\<close> by \<open>k\<close> days, so the weekday moves by \<open>k\<close>. A time
  zone whose local calendar skips a date within those days is not modelled: there the
  weekday label of a padding entry differs.
\<close>

definition synthetic_day :: "(int \<Rightarrow> int) \<Rightarrow> int \<Rightarrow> CurrentData \<Rightarrow> nat \<Rightarrow> ForecastDay" where
  "synthetic_day tz now currentData n =
     \<lparr> day = DAYS ! ((getDay tz now + (if n > 0 then n else 1)) mod 7),
       temp = Math_round (c_temp currentData),
       condition = ''cloudy'' \<rparr>"

function fill_missing :: "(int \<Rightarrow> int) \<Rightarrow> int \<Rightarrow> CurrentData \<Rightarrow> ForecastDay list
    \<Rightarrow> ForecastDay list" where
  "fill_missing tz now currentData processedForecast =
     (if length processedForecast < 5
      then fill_missing tz now currentData
             (processedForecast @ [synthetic_day tz now currentData (length processedForecast)])
      else processedForecast)"
  by pat_completeness auto
termination
  by (relation "measure (\<lambda>(tz, now, currentData, pf). 5 - length pf)") auto

text \<open>
  \<^verbatim>\<open>formatWeatherDataFromAPI25\<close>, in the order of the source: the entries are
  grouped, one entry is made for each of the first five keys, the list is padded, and
  the record is built (where an empty \<^verbatim>\<open>weather\<close> array of the current conditions
  makes \<^verbatim>\<open>currentWeather.main\<close> throw). In
  \<^verbatim>\<open>(currentData.visibility || 10000)\<close> the right operand is taken when the left
  one is falsy: absent, or the number 0.
\<close>

definition formatWeatherDataFromAPI25 :: "(int \<Rightarrow> int) \<Rightarrow> int \<Rightarrow> CurrentData
    \<Rightarrow> ForecastItem list \<Rightarrow> js_error + WeatherData" where
  "formatWeatherDataFromAPI25 tz now currentData forecastList =
     (case group_forecasts forecastList [] of
        Inl e \<Rightarrow> Inl e
      | Inr forecastsByDay \<Rightarrow>
         (case process_days tz (take 5 forecastsByDay) [] of
            Inl e \<Rightarrow> Inl e
          | Inr processedForecast \<Rightarrow>
             (case c_weather currentData of
                [] \<Rightarrow> Inl (TypeError ''currentWeather is undefined'')
              | currentWeather # _ \<Rightarrow>
                 Inr \<lparr> location = ''Current Location'',
                       temperature = Math_round (c_temp currentData),
                       current_condition = toUpperCase currentWeather,
                       high = Math_round (c_temp_max currentData),
                       low = Math_round (c_temp_min currentData),
                       humidity = c_humidity currentData,
                       wind = Math_round (c_wind_speed currentData),
                       visibility = Math_round
                         ((case c_visibility currentData of
                             None \<Rightarrow> 10000
                           | Some v \<Rightarrow> if v = 0 then 10000 else v) / 1000),
                       forecast = fill_missing tz now currentData processedForecast \<rparr>)))"

text \<open>
  \<^verbatim>\<open>fetchWeatherData\<close>: the two responses are what the two awaited \<^verbatim>\<open>fetch\<close>
  calls (current conditions, then forecast) settle to.
\<close>

definition fetchWeatherData :: "(int \<Rightarrow> int) \<Rightarrow> int \<Rightarrow> CurrentData fetch_result
    \<Rightarrow> ForecastItem list fetch_result \<Rightarrow> js_error + WeatherData" where
  "fetchWeatherData tz now currentResponse forecastResponse =
     (case currentResponse of
        Rejected \<Rightarrow> Inl (TypeError ''Failed to fetch'')
      | Response ok1 status1 json1 \<Rightarrow>
         if \<not> ok1 then Inl (Error (''Weather API 2.5 current error: '' @ show_nat status1))
         else (case forecastResponse of
            Rejected \<Rightarrow> Inl (TypeError ''Failed to fetch'')
          | Response ok2 status2 json2 \<Rightarrow>
             if \<not> ok2 then Inl (Error (''Weather API 2.5 forecast error: '' @ show_nat status2))
             else (case json1 of
                None \<Rightarrow> Inl (SyntaxError ''Unexpected token'')
              | Some currentData \<Rightarrow>
                 (case json2 of
                    None \<Rightarrow> Inl (SyntaxError ''Unexpected token'')
                  | Some forecastList \<Rightarrow>
                     formatWeatherDataFromAPI25 tz now currentData forecastList))))"

text \<open>
  \<^verbatim>\<open>getCityFromCoords\<close>. The reverse-geocoding body is \<^verbatim>\<open>null\<close> or an array of
  places; a place without a \<^verbatim>\<open>name\<close> makes \<^verbatim>\<open>name.toUpperCase()\<close> throw inside
  the \<^verbatim>\<open>try\<close>.
\<close>

record GeoPlace =
  name :: "string option"
  country :: string

datatype geo_json = JNull | JArray "GeoPlace list"

text \<open>The test both failure branches make on the coordinates, and the label they return.\<close>

definition fallback_label :: "real \<Rightarrow> real \<Rightarrow> string" where
  "fallback_label lat lon =
     (if \<bar>lat - 40.7128\<bar> < 0.01 \<and> \<bar>lon - (- 74.0060)\<bar> < 0.01
      then ''NEW YORK, US'' else ''Current Location'')"

text \<open>The body of the \<^verbatim>\<open>try\<close> block.\<close>

definition getCityFromCoords_try :: "real \<Rightarrow> real \<Rightarrow> geo_json fetch_result \<Rightarrow> js_error + string" where
  "getCityFromCoords_try lat lon response =
     (case response of
        Rejected \<Rightarrow> Inl (TypeError ''Failed to fetch'')
      | Response ok1 status1 json1 \<Rightarrow>
         if \<not> ok1 then Inr (fallback_label lat lon)
         else (case json1 of
            None \<Rightarrow> Inl (SyntaxError ''Unexpected token'')
          | Some JNull \<Rightarrow> Inr ''Current Location''
          | Some (JArray []) \<Rightarrow> Inr ''Current Location''
          | Some (JArray (place # _)) \<Rightarrow>
             (case name place of
                None \<Rightarrow> Inl (TypeError ''name is undefined'')
              | Some n \<Rightarrow> Inr (toUpperCase n @ '', '' @ country place))))"

definition getCityFromCoords :: "real \<Rightarrow> real \<Rightarrow> geo_json fetch_result \<Rightarrow> js_error + string" where
  "getCityFromCoords lat lon response =
     (case getCityFromCoords_try lat lon response of
        Inr locationName \<Rightarrow> Inr locationName
      | Inl error \<Rightarrow> Inr (fallback_label lat lon))"

section \<open>hooks/useGeolocation\<close>

text \<open>
  The hook's state; \<open>None\<close> is \<^verbatim>\<open>null\<close>.
\<close>

record GeolocationState =
  coordinates :: "(real \<times> real) option"
  error :: "string option"
  loading :: bool
  permissionGranted :: "bool option"
  permissionState :: "string option"

record geoOptions =
  enableHighAccuracy :: bool
  timeout :: nat
  maximumAge :: nat

text \<open>
  What the browser answers. \<open>permissions = None\<close>: no Permissions API;
  \<open>QueryRejects\<close>: the query throws or rejects; \<open>QueryResolves st\<close>: its status has
  state \<open>st\<close>. For \<^verbatim>\<open>getCurrentPosition\<close>: a call of the success callback, a call of
  the error callback with a code and a message, a synchronous throw, or no callback.
\<close>

datatype permission_query = QueryRejects | QueryResolves string

datatype position_result =
    PositionSuccess real real
  | PositionError int string
  | PositionThrows
  | PositionPending

record Navigator =
  geolocation :: bool
  permissions :: "permission_query option"
  position :: position_result

text \<open>
  What one run does, in order: the calls it makes on the browser and the states it sets.
\<close>

datatype event =
    PermissionsQuery
  | GetCurrentPosition geoOptions
  | SetState GeolocationState

record Hook =
  state :: GeolocationState
  isFirefox :: bool
  attemptCount :: nat
  events :: "event list"

definition initialState :: GeolocationState where
  "initialState = \<lparr> coordinates = None, error = None, loading = False,
                     permissionGranted = None, permissionState = None \<rparr>"

definition setState :: "(GeolocationState \<Rightarrow> GeolocationState) \<Rightarrow> Hook \<Rightarrow> Hook" where
  "setState f h = h\<lparr> state := f (state h), events := events h @ [SetState (f (state h))] \<rparr>"

text \<open>The right arrow (U+2192) of the Firefox messages, in UTF-8.\<close>

definition arrow :: string where
  "arrow = [CHR 0xE2, CHR 0x86, CHR 0x92]"

definition fallbackCoords :: "real \<times> real" where
  "fallbackCoords = (40.7128, - 74.0060)"

definition useFallbackLocation :: "string \<Rightarrow> Hook \<Rightarrow> Hook" where
  "useFallbackLocation errorMessage h =
     setState (\<lambda>_. \<lparr> coordinates = Some fallbackCoords,
                      error = Some (errorMessage @ '' Using default location instead.''),
                      loading = False,
                      permissionGranted = Some True,
                      permissionState = Some ''fallback'' \<rparr>) h"

definition deniedState :: "string \<Rightarrow> GeolocationState" where
  "deniedState errorMsg = \<lparr> coordinates = None, error = Some errorMsg, loading = False,
                            permissionGranted = Some False, permissionState = Some ''denied'' \<rparr>"

definition geoOptions_of :: "bool \<Rightarrow> geoOptions" where
  "geoOptions_of ff = \<lparr> enableHighAccuracy = \<not> ff,
                        timeout = (if ff then 15000 else 10000),
                        maximumAge = (if ff then 60000 else 0) \<rparr>"

text \<open>The success and error callbacks handed to \<^verbatim>\<open>getCurrentPosition\<close>.\<close>

definition successCallback :: "real \<Rightarrow> real \<Rightarrow> Hook \<Rightarrow> Hook" where
  "successCallback latitude longitude h =
     setState (\<lambda>_. \<lparr> coordinates = Some (latitude, longitude), error = None, loading = False,
                      permissionGranted = Some True, permissionState = Some ''granted'' \<rparr>) h"

definition errorCallback :: "int \<Rightarrow> string \<Rightarrow> Hook \<Rightarrow> Hook" where
  "errorCallback code msg h =
     (if code = 1 then
        setState (\<lambda>_. deniedState
          (if isFirefox h
           then ''Permission denied. Please allow location access in Firefox settings (Address Bar icon or Settings ''
                @ arrow @ '' Privacy & Security '' @ arrow @ '' Permissions '' @ arrow @ '' Location).''
           else ''Permission denied. Please allow location access to use this feature.'')) h
      else if code = 2 then
        useFallbackLocation
          (if isFirefox h
           then ''Location permission granted, but position is currently unavailable. Please check your Operating System''
                @ [CHR 0x27] @ ''s location settings to ensure Firefox has access and location services are enabled. Using default location instead.''
           else ''Location unavailable. Using default location instead.'') h
      else if code = 3 then
        useFallbackLocation ''Location request timed out. Using default location instead.'' h
      else
        useFallbackLocation
          (''Geolocation error ('' @ show_int code @ ''): '' @ msg @ ''. Using default location instead.'') h)"

definition requestPosition :: "Navigator \<Rightarrow> Hook \<Rightarrow> Hook" where
  "requestPosition nav h =
     (let h' = h\<lparr> events := events h @ [GetCurrentPosition (geoOptions_of (isFirefox h))] \<rparr>
      in case position nav of
           PositionSuccess latitude longitude \<Rightarrow> successCallback latitude longitude h'
         | PositionError code msg \<Rightarrow> errorCallback code msg h'
         | PositionThrows \<Rightarrow> useFallbackLocation ''Unexpected error getting location.'' h'
         | PositionPending \<Rightarrow> h')"

definition checkPermissionAndGetLocation :: "Navigator \<Rightarrow> Hook \<Rightarrow> Hook" where
  "checkPermissionAndGetLocation nav h =
     (case permissions nav of
        None \<Rightarrow> requestPosition nav h
      | Some q \<Rightarrow>
         (let h' = h\<lparr> events := events h @ [PermissionsQuery] \<rparr>
          in case q of
               QueryRejects \<Rightarrow> requestPosition nav h'
             | QueryResolves st \<Rightarrow>
                if st = ''denied'' then
                  setState (\<lambda>_. deniedState
                    (if isFirefox h'
                     then ''Permission denied. Please allow location access in your Firefox settings (Address Bar icon or Settings ''
                          @ arrow @ '' Privacy & Security '' @ arrow @ '' Permissions '' @ arrow @ '' Location).''
                     else ''Permission denied. Please allow location access in your browser settings.'')) h'
                else requestPosition nav h'))"

definition requestGeolocation :: "Navigator \<Rightarrow> Hook \<Rightarrow> Hook" where
  "requestGeolocation nav h0 =
     (let h = h0\<lparr> attemptCount := attemptCount h0 + 1 \<rparr>
      in if \<not> geolocation nav then
           setState (\<lambda>prev. prev\<lparr> error := Some ''Geolocation is not supported by your browser'',
                                   permissionGranted := Some False,
                                   loading := False,
                                   permissionState := Some ''unsupported'' \<rparr>) h
         else checkPermissionAndGetLocation nav (setState (\<lambda>prev. prev\<lparr> loading := True \<rparr>) h))"


section \<open>The page component (WeatherApp)\<close>

definition fallbackWeatherData :: WeatherData where
  "fallbackWeatherData =
     \<lparr> location = ''NEW YORK, US'',
       temperature = 18,
       current_condition = ''PARTLY CLOUDY'',
       high = 21,
       low = 14,
       humidity = 65,
       wind = 12,
       visibility = 10,
       forecast =
         [\<lparr> day = ''MON'', temp = 18, condition = ''cloudy'' \<rparr>,
          \<lparr> day = ''TUE'', temp = 20, condition = ''sunny'' \<rparr>,
          \<lparr> day = ''WED'', temp = 17, condition = ''rainy'' \<rparr>,
          \<lparr> day = ''THU'', temp = 16, condition = ''cloudy'' \<rparr>,
          \<lparr> day = ''FRI'', temp = 19, condition = ''sunny'' \<rparr>] \<rparr>"

text \<open>
  The text of the search field is kept as its UTF-16 code units, since
  \<^verbatim>\<open>String.prototype.trim\<close> is defined on them: it strips the ECMAScript
  white space and line terminator code points from both ends.
\<close>

type_synonym js_string = "16 word list"

definition is_whitespace :: "16 word \<Rightarrow> bool" where
  "is_whitespace c =
     (c = 0x0009 \<or> c = 0x000A \<or> c = 0x000B \<or> c = 0x000C \<or> c = 0x000D \<or> c = 0x0020
      \<or> c = 0x00A0 \<or> c = 0x1680 \<or> (0x2000 \<le> c \<and> c \<le> 0x200A) \<or> c = 0x2028
      \<or> c = 0x2029 \<or> c = 0x202F \<or> c = 0x205F \<or> c = 0x3000 \<or> c = 0xFEFF)"

definition trim :: "js_string \<Rightarrow> js_string" where
  "trim s = rev (dropWhile is_whitespace (rev (dropWhile is_whitespace s)))"

text \<open>
  The component's state variables \<^verbatim>\<open>searchQuery\<close>, \<^verbatim>\<open>weatherData\<close>,
  \<^verbatim>\<open>loading\<close> and \<^verbatim>\<open>error\<close> (the last two are \<open>pageLoading\<close> and \<open>pageError\<close>
  here, the hook's state having fields of the same names), and the calls made on the
  weather service so far.
\<close>

datatype request =
    FetchWeatherData real real
  | GetCityFromCoords real real
  | FetchWeatherByCity js_string

record Page =
  searchQuery :: js_string
  weatherData :: "WeatherData option"
  pageLoading :: bool
  pageError :: "string option"
  requests :: "request list"

text \<open>
  The \<^verbatim>\<open>catch\<close> block of \<^verbatim>\<open>fetchWeatherByCoordinates\<close>; \<open>held\<close> is the value of
  \<^verbatim>\<open>weatherData\<close> the handler closes over. An empty message is falsy.
\<close>

definition fetch_failed :: "js_error \<Rightarrow> WeatherData option \<Rightarrow> Page \<Rightarrow> Page" where
  "fetch_failed err held p =
     (let p1 = (if held = None
                then p\<lparr> pageError := Some (''Failed to fetch weather data: ''
                          @ (if message err = [] then ''Please try again.'' else message err)) \<rparr>
                else p)
      in if held = None then p1\<lparr> weatherData := Some fallbackWeatherData \<rparr> else p1)"

text \<open>
  \<^verbatim>\<open>fetchWeatherByCoordinates\<close>, run to completion from the state \<open>p\<close>. The two
  arguments \<open>fetchWD\<close> and \<open>getCity\<close> are what the awaited calls of the service settle
  to for given coordinates. The handler reads \<^verbatim>\<open>weatherData\<close> as held when it starts.
\<close>

definition fetchWeatherByCoordinates ::
  "(real \<Rightarrow> real \<Rightarrow> js_error + WeatherData) \<Rightarrow> (real \<Rightarrow> real \<Rightarrow> js_error + string)
    \<Rightarrow> real \<Rightarrow> real \<Rightarrow> Page \<Rightarrow> Page" where
  "fetchWeatherByCoordinates fetchWD getCity lat lon p =
     (let held = weatherData p;
          p1 = p\<lparr> pageLoading := True, pageError := None,
                  requests := requests p @ [FetchWeatherData lat lon] \<rparr>;
          p2 = (case fetchWD lat lon of
                  Inl err \<Rightarrow> fetch_failed err held p1
                | Inr data \<Rightarrow>
                   (let p1' = p1\<lparr> requests := requests p1 @ [GetCityFromCoords lat lon] \<rparr>
                    in case getCity lat lon of
                         Inl err \<Rightarrow> fetch_failed err held p1'
                       | Inr locationName \<Rightarrow>
                          p1'\<lparr> weatherData := Some (data\<lparr> location := locationName \<rparr>) \<rparr>))
      in p2\<lparr> pageLoading := False \<rparr>)"

text \<open>\<^verbatim>\<open>handleSearch\<close>; \<open>fetchByCity\<close> is what \<^verbatim>\<open>fetchWeatherByCity\<close> settles to.\<close>

definition handleSearch :: "(js_string \<Rightarrow> js_error + WeatherData) \<Rightarrow> Page \<Rightarrow> Page" where
  "handleSearch fetchByCity p =
     (if trim (searchQuery p) = [] then p
      else
        (let p1 = p\<lparr> pageLoading := True, pageError := None,
                     requests := requests p @ [FetchWeatherByCity (searchQuery p)] \<rparr>;
             p2 = (case fetchByCity (searchQuery p) of
                     Inr data \<Rightarrow> p1\<lparr> weatherData := Some data, searchQuery := [] \<rparr>
                   | Inl err \<Rightarrow>
                      p1\<lparr> pageError := Some ''Location not found. Please try another search term.'' \<rparr>)
         in p2\<lparr> pageLoading := False \<rparr>))"

section \<open>Notions used to state the properties\<close>

text \<open>The UTC calendar day of a forecast entry, as the grouping computes it.\<close>

definition day_of :: "ForecastItem \<Rightarrow> int" where
  "day_of item = utc_day (dt item * 1000)"

text \<open>The distinct days of a response, in order of first appearance.\<close>

definition distinct_days :: "ForecastItem list \<Rightarrow> int list" where
  "distinct_days forecastList = rev (remdups (rev (map day_of forecastList)))"

definition items_of_day :: "ForecastItem list \<Rightarrow> int \<Rightarrow> ForecastItem list" where
  "items_of_day forecastList d = filter (\<lambda>item. day_of item = d) forecastList"

text \<open>
  The local calendar day of a forecast entry, which is the day \<^verbatim>\<open>getHours\<close> and
  \<^verbatim>\<open>getDay\<close> read the entry in; the distinct local days of a response in order of
  first appearance, and the entries of one local day.
\<close>

definition local_day :: "(int \<Rightarrow> int) \<Rightarrow> ForecastItem \<Rightarrow> int" where
  "local_day tz item = (dt item * 1000 + tz (dt item * 1000)) div 86400000"

definition distinct_local_days :: "(int \<Rightarrow> int) \<Rightarrow> ForecastItem list \<Rightarrow> int list" where
  "distinct_local_days tz forecastList = rev (remdups (rev (map (local_day tz) forecastList)))"

definition items_of_local_day :: "(int \<Rightarrow> int) \<Rightarrow> ForecastItem list \<Rightarrow> int \<Rightarrow> ForecastItem list" where
  "items_of_local_day tz forecastList d = filter (\<lambda>item. local_day tz item = d) forecastList"

text \<open>
  Two entries of the response fall on one UTC calendar day exactly when they fall on one
  local calendar day: the calendar day of an entry is then the same notion in both.
\<close>

definition days_agree :: "(int \<Rightarrow> int) \<Rightarrow> ForecastItem list \<Rightarrow> bool" where
  "days_agree tz forecastList =
     list_all (\<lambda>a. list_all (\<lambda>b. (day_of a = day_of b) = (local_day tz a = local_day tz b))
                       forecastList) forecastList"

text \<open>The entries grouped by a key, the groups in order of first appearance.\<close>

definition groups_by :: "('a \<Rightarrow> 'k) \<Rightarrow> 'a list \<Rightarrow> 'a list list" where
  "groups_by key xs = map (\<lambda>d. filter (\<lambda>x. key x = d) xs) (rev (remdups (rev (map key xs))))"

text \<open>
  A response the formatter can read: the current conditions carry a weather entry, and
  every forecast entry has a representable time and a weather entry.
\<close>

definition well_formed :: "CurrentData \<Rightarrow> ForecastItem list \<Rightarrow> bool" where
  "well_formed currentData forecastList =
     (c_weather currentData \<noteq> []
      \<and> list_all (\<lambda>item. valid_time (dt item * 1000) \<and> f_weather item \<noteq> []) forecastList)"

text \<open>The local hour of an entry is 11, 12 or 13: local time from 11:00 up to 14:00.\<close>

definition hour_11_to_13 :: "(int \<Rightarrow> int) \<Rightarrow> ForecastItem \<Rightarrow> bool" where
  "hour_11_to_13 tz item = (getHours tz (dt item * 1000) \<in> {11, 12, 13})"

definition chosen_item :: "(int \<Rightarrow> int) \<Rightarrow> ForecastItem list \<Rightarrow> ForecastItem" where
  "chosen_item tz items =
     (case find (hour_11_to_13 tz) items of Some item \<Rightarrow> item | None \<Rightarrow> hd items)"

definition entry_of :: "(int \<Rightarrow> int) \<Rightarrow> ForecastItem \<Rightarrow> ForecastDay" where
  "entry_of tz item = \<lparr> day = DAYS ! getDay tz (dt item * 1000),
                        temp = Math_round (f_temp item),
                        condition = toLowerCase (hd (f_weather item)) \<rparr>"

text \<open>
  The selection as the specification words it: the local time of day of the entry lies
  between 11:00 and 13:00.
\<close>

definition spec_between_11_and_13 :: "(int \<Rightarrow> int) \<Rightarrow> ForecastItem \<Rightarrow> bool" where
  "spec_between_11_and_13 tz item =
     (let t = (dt item * 1000 + tz (dt item * 1000)) mod 86400000
      in 11 * 3600000 \<le> t \<and> t \<le> 13 * 3600000)"

definition spec_chosen_item :: "(int \<Rightarrow> int) \<Rightarrow> ForecastItem list \<Rightarrow> ForecastItem" where
  "spec_chosen_item tz items =
     (case find (spec_between_11_and_13 tz) items of Some item \<Rightarrow> item | None \<Rightarrow> hd items)"

text \<open>The grouping state after reading the entries \<open>pre\<close>.\<close>

definition grouped :: "ForecastItem list \<Rightarrow> (int \<times> ForecastItem list) list" where
  "grouped pre = map (\<lambda>d. (d, items_of_day pre d)) (distinct_days pre)"


text \<open>
  The visibility as the specification words it: the upstream value in metres divided by
  1000 and rounded, 10000 metres being assumed when the value is absent.
\<close>

definition spec_visibilityKm :: "real option \<Rightarrow> int" where
  "spec_visibilityKm v = Math_round ((case v of None \<Rightarrow> 10000 | Some m \<Rightarrow> m) / 1000)"

section \<open>Concrete inputs\<close>

text \<open>
  A host clock four and a half hours ahead of UTC, two forecast entries of the UTC day
  1970-01-01 (00:00 and 09:00 UTC, that is 04:30 and 13:30 local time), and two
  current-conditions responses.
\<close>

definition kabul_tz :: "int \<Rightarrow> int" where
  "kabul_tz ms = 16200000"

definition early_item :: ForecastItem where
  "early_item = \<lparr> dt = 0, f_temp = 3.2, f_weather = [''Rain''] \<rparr>"

definition afternoon_item :: ForecastItem where
  "afternoon_item = \<lparr> dt = 32400, f_temp = 7.6, f_weather = [''Clear''] \<rparr>"

definition mild_day :: CurrentData where
  "mild_day = \<lparr> c_weather = [''Clouds''], c_temp = 17.6, c_temp_max = 20.2, c_temp_min = 11.5,
                 c_humidity = 60, c_wind_speed = 3.4, c_visibility = Some 8000 \<rparr>"

definition foggy_day :: CurrentData where
  "foggy_day = \<lparr> c_weather = [''Fog''], c_temp = 4.4, c_temp_max = 6, c_temp_min = 2.1,
                  c_humidity = 98, c_wind_speed = 0.6, c_visibility = Some 0 \<rparr>"

definition kabul_record :: WeatherData where
  "kabul_record =
     \<lparr> location = ''Current Location'', temperature = 18, current_condition = ''CLOUDS'',
       high = 20, low = 12, humidity = 60, wind = 3, visibility = 8,
       forecast = [\<lparr> day = ''THU'', temp = 8, condition = ''clear'' \<rparr>,
                   \<lparr> day = ''FRI'', temp = 18, condition = ''cloudy'' \<rparr>,
                   \<lparr> day = ''SAT'', temp = 18, condition = ''cloudy'' \<rparr>,
                   \<lparr> day = ''SUN'', temp = 18, condition = ''cloudy'' \<rparr>,
                   \<lparr> day = ''MON'', temp = 18, condition = ''cloudy'' \<rparr>] \<rparr>"

text \<open>
  A host clock three hours ahead of UTC, and two entries of the local day 1970-01-02:
  local midnight (21:00 UTC of the day before) and local noon (09:00 UTC).
\<close>

definition moscow_tz :: "int \<Rightarrow> int" where
  "moscow_tz ms = 10800000"

definition midnight_item :: ForecastItem where
  "midnight_item = \<lparr> dt = 75600, f_temp = 1.4, f_weather = [''Snow''] \<rparr>"

definition noon_item :: ForecastItem where
  "noon_item = \<lparr> dt = 118800, f_temp = 5.1, f_weather = [''Clouds''] \<rparr>"

definition foggy_record :: WeatherData where
  "foggy_record =
     \<lparr> location = ''Current Location'', temperature = 4, current_condition = ''FOG'',
       high = 6, low = 2, humidity = 98, wind = 1, visibility = 10,
       forecast = [\<lparr> day = ''FRI'', temp = 4, condition = ''cloudy'' \<rparr>,
                   \<lparr> day = ''FRI'', temp = 4, condition = ''cloudy'' \<rparr>,
                   \<lparr> day = ''SAT'', temp = 4, condition = ''cloudy'' \<rparr>,
                   \<lparr> day = ''SUN'', temp = 4, condition = ''cloudy'' \<rparr>,
                   \<lparr> day = ''MON'', temp = 4, condition = ''cloudy'' \<rparr>] \<rparr>"

text \<open>Browsers: one whose position request times out, one that already refused.\<close>

definition timeout_run :: Navigator where
  "timeout_run = \<lparr> geolocation = True, permissions = Some (QueryResolves ''prompt''),
                    position = PositionError 3 ''Timeout expired'' \<rparr>"

definition denied_run :: Navigator where
  "denied_run = \<lparr> geolocation = True, permissions = Some (QueryResolves ''denied''),
                   position = PositionSuccess 51.5 (- 0.12) \<rparr>"

definition fresh_hook :: Hook where
  "fresh_hook = \<lparr> state = initialState, isFirefox = False, attemptCount = 0, events = [] \<rparr>"

text \<open>Pages and services: a weather service that answers 503, a search that finds nothing.\<close>

definition empty_page :: Page where
  "empty_page = \<lparr> searchQuery = [], weatherData = None, pageLoading = False,
                   pageError = None, requests = [] \<rparr>"

definition service_down :: "real \<Rightarrow> real \<Rightarrow> js_error + WeatherData" where
  "service_down lat lon =
     fetchWeatherData (\<lambda>_. 0) 0 (Response False 503 None) (Response False 503 None)"

definition no_city :: "real \<Rightarrow> real \<Rightarrow> js_error + string" where
  "no_city lat lon = getCityFromCoords lat lon Rejected"

definition blank_page :: Page where
  "blank_page = empty_page\<lparr> searchQuery := [0x20, 0x09, 0x3000] \<rparr>"

definition atlantis_page :: Page where
  "atlantis_page = empty_page\<lparr> searchQuery := [0x20, 0x41, 0x74, 0x6C],
                                 weatherData := Some fallbackWeatherData \<rparr>"

definition city_unknown :: "js_string \<Rightarrow> js_error + WeatherData" where
  "city_unknown city = Inl (Error ''City not found'')"

section \<open>Properties\<close>

subsection \<open>Grouping, selection and padding\<close>

lemma distinct_distinct_days: "distinct (distinct_days fl)"
  by (simp add: distinct_days_def)

lemma set_distinct_days: "set (distinct_days fl) = day_of ` set fl"
  by (simp add: distinct_days_def)

lemma distinct_days_snoc:
  "distinct_days (pre @ [x]) =
     (if day_of x \<in> set (distinct_days pre) then distinct_days pre
      else distinct_days pre @ [day_of x])"
  by (simp add: distinct_days_def)

lemma push_day_map:
  "distinct D \<Longrightarrow>
   push_day k x (map (\<lambda>d. (d, f d)) D) =
     (if k \<in> set D then map (\<lambda>d. (d, if d = k then f d @ [x] else f d)) D
      else map (\<lambda>d. (d, f d)) D @ [(k, [x])])"
  by (induction D) auto

lemma items_of_day_absent: "d \<notin> day_of ` set fl \<Longrightarrow> items_of_day fl d = []"
  by (auto simp: items_of_day_def filter_empty_conv)

lemma grouped_snoc: "push_day (day_of x) x (grouped pre) = grouped (pre @ [x])"
proof (cases "day_of x \<in> set (distinct_days pre)")
  case True
  then show ?thesis
    by (simp add: grouped_def push_day_map distinct_distinct_days distinct_days_snoc
        items_of_day_def)
next
  case False
  then have "items_of_day pre (day_of x) = []"
    by (simp add: items_of_day_absent set_distinct_days)
  with False show ?thesis
    by (auto simp: grouped_def push_day_map distinct_distinct_days distinct_days_snoc
        items_of_day_def)
qed

lemma group_forecasts_grouped:
  "group_forecasts fl (grouped pre) =
     (if list_all (\<lambda>item. valid_time (dt item * 1000)) fl then Inr (grouped (pre @ fl))
      else Inl (RangeError ''Invalid time value''))"
proof (induction fl arbitrary: pre)
  case Nil
  then show ?case by simp
next
  case (Cons x fl)
  have "push_day (utc_day (dt x * 1000)) x (grouped pre) = grouped (pre @ [x])"
    using grouped_snoc [of x pre] by (simp add: day_of_def)
  then show ?case using Cons.IH [of "pre @ [x]"] by simp
qed

lemma group_forecasts_start:
  "group_forecasts fl [] =
     (if list_all (\<lambda>item. valid_time (dt item * 1000)) fl then Inr (grouped fl)
      else Inl (RangeError ''Invalid time value''))"
  using group_forecasts_grouped [of fl "[]"] by (simp add: grouped_def distinct_days_def)

lemma is_noon_hour: "is_noon tz = hour_11_to_13 tz"
  by (auto simp: is_noon_def hour_11_to_13_def fun_eq_iff)

lemma noonForecast_chosen: "items \<noteq> [] \<Longrightarrow> noonForecast tz items = Inr (chosen_item tz items)"
  by (cases items) (auto simp: noonForecast_def chosen_item_def is_noon_hour split: option.splits)

lemma chosen_item_in: "items \<noteq> [] \<Longrightarrow> chosen_item tz items \<in> set items"
  by (cases items) (auto simp: chosen_item_def split: option.splits if_splits dest: find_Some_iff[THEN iffD1])

lemma forecast_entry_Inr: "forecast_entry tz nf = Inr fd \<Longrightarrow> fd = entry_of tz nf \<and> f_weather nf \<noteq> []"
  by (auto simp: forecast_entry_def entry_of_def split: list.splits)

lemma forecast_entry_ok: "f_weather nf \<noteq> [] \<Longrightarrow> forecast_entry tz nf = Inr (entry_of tz nf)"
  by (auto simp: forecast_entry_def entry_of_def split: list.splits)

lemma process_days_Inr:
  "process_days tz gs acc = Inr pf \<Longrightarrow> \<forall>g\<in>set gs. snd g \<noteq> [] \<Longrightarrow>
   pf = acc @ map (\<lambda>g. entry_of tz (chosen_item tz (snd g))) gs
   \<and> (\<forall>g\<in>set gs. f_weather (chosen_item tz (snd g)) \<noteq> [])"
proof (induction gs arbitrary: acc)
  case Nil
  then show ?case by simp
next
  case (Cons g gs)
  obtain d items where g: "g = (d, items)" by (cases g)
  with Cons.prems have ne: "items \<noteq> []" by simp
  from Cons.prems(1) g ne obtain fd where
    fd: "forecast_entry tz (chosen_item tz items) = Inr fd"
    and rest: "process_days tz gs (acc @ [fd]) = Inr pf"
    by (auto simp: noonForecast_chosen split: sum.splits)
  from forecast_entry_Inr [OF fd] have e: "fd = entry_of tz (chosen_item tz items)"
    and w: "f_weather (chosen_item tz items) \<noteq> []" by simp_all
  from Cons.IH [OF rest] Cons.prems(2) e w g show ?case by simp
qed

lemma process_days_ok:
  "\<forall>g\<in>set gs. snd g \<noteq> [] \<and> (\<forall>item\<in>set (snd g). f_weather item \<noteq> []) \<Longrightarrow>
   \<exists>pf. process_days tz gs acc = Inr pf"
proof (induction gs arbitrary: acc)
  case Nil
  then show ?case by simp
next
  case (Cons g gs)
  obtain d items where g: "g = (d, items)" by (cases g)
  with Cons.prems have ne: "items \<noteq> []" and w: "\<forall>item\<in>set items. f_weather item \<noteq> []"
    by simp_all
  from ne w have "f_weather (chosen_item tz items) \<noteq> []"
    using chosen_item_in by blast
  then have "forecast_entry tz (chosen_item tz items) = Inr (entry_of tz (chosen_item tz items))"
    by (rule forecast_entry_ok)
  moreover have "\<exists>pf. process_days tz gs (acc @ [entry_of tz (chosen_item tz items)]) = Inr pf"
    using Cons.IH Cons.prems by simp
  ultimately show ?case using g ne by (simp add: noonForecast_chosen)
qed

lemma fill_missing_eq:
  "length pf \<le> 5 \<Longrightarrow>
   fill_missing tz now cur pf = pf @ map (synthetic_day tz now cur) [length pf..<5]"
proof (induction tz now cur pf rule: fill_missing.induct)
  case (1 tz now cur pf)
  show ?case
  proof (cases "length pf < 5")
    case True
    then have "fill_missing tz now cur pf =
        fill_missing tz now cur (pf @ [synthetic_day tz now cur (length pf)])"
      by (subst fill_missing.simps) simp
    also have "\<dots> = (pf @ [synthetic_day tz now cur (length pf)])
                      @ map (synthetic_day tz now cur) [Suc (length pf)..<5]"
      using "1.IH" [OF True] True by simp
    also have "\<dots> = pf @ map (synthetic_day tz now cur) [length pf..<5]"
      using True by (simp add: upt_conv_Cons)
    finally show ?thesis .
  next
    case False
    with "1.prems" have "length pf = 5" by simp
    then show ?thesis by (subst fill_missing.simps) simp
  qed
qed

lemma grouped_nonempty: "\<forall>g\<in>set (grouped fl). snd g \<noteq> []"
  by (auto simp: grouped_def items_of_day_def filter_empty_conv set_distinct_days)

lemma grouped_items: "g \<in> set (grouped fl) \<Longrightarrow> set (snd g) \<subseteq> set fl"
  by (auto simp: grouped_def items_of_day_def)

lemma length_grouped: "length (grouped fl) = length (distinct_days fl)"
  by (simp add: grouped_def)

lemma length_distinct_days: "length (distinct_days fl) = card (day_of ` set fl)"
  by (simp add: distinct_days_def length_remdups_card_conv)


lemma remdups_snoc: "remdups (zs @ [a]) = filter (\<lambda>y. y \<noteq> a) (remdups zs) @ [a]"
  by (induction zs) auto

lemma first_seen_Cons:
  "rev (remdups (rev (a # ys))) = a # filter (\<lambda>y. y \<noteq> a) (rev (remdups (rev ys)))"
  by (simp add: remdups_snoc rev_filter)

lemma groups_by_nonempty: "gr \<in> set (groups_by f xs) \<Longrightarrow> gr \<noteq> [] \<and> set gr \<subseteq> set xs"
  by (auto simp: groups_by_def filter_empty_conv)

lemma groups_by_Cons:
  "groups_by f (x # xs) =
     (x # filter (\<lambda>y. f y = f x) xs) # filter (\<lambda>gr. f (hd gr) \<noteq> f x) (groups_by f xs)"
proof -
  let ?F = "rev (remdups (rev (map f xs)))"
  let ?h = "\<lambda>d. filter (\<lambda>y. f y = d) xs"
  have key: "f (hd (?h d)) = d" if "d \<in> set ?F" for d
  proof -
    from that have "?h d \<noteq> []" by (auto simp: filter_empty_conv)
    then have "hd (?h d) \<in> set (?h d)" by (rule hd_in_set)
    then show ?thesis by simp
  qed
  have "filter (\<lambda>gr. f (hd gr) \<noteq> f x) (map ?h ?F) = map ?h (filter (\<lambda>d. f (hd (?h d)) \<noteq> f x) ?F)"
    by (simp add: filter_map comp_def)
  also have "filter (\<lambda>d. f (hd (?h d)) \<noteq> f x) ?F = filter (\<lambda>d. d \<noteq> f x) ?F"
    by (rule filter_cong) (simp_all add: key)
  finally have r: "filter (\<lambda>gr. f (hd gr) \<noteq> f x) (groups_by f xs)
                   = map ?h (filter (\<lambda>d. d \<noteq> f x) ?F)"
    by (simp add: groups_by_def)
  have "map (\<lambda>d. filter (\<lambda>y. f y = d) (x # xs)) (filter (\<lambda>d. d \<noteq> f x) ?F)
        = map ?h (filter (\<lambda>d. d \<noteq> f x) ?F)"
    by (rule map_cong) auto
  then show ?thesis
    unfolding r by (simp add: groups_by_def first_seen_Cons del: remdups.simps rev.simps)
qed

text \<open>Two keys that tell the same entries apart give the same groups in the same order.\<close>

lemma groups_by_cong:
  "\<forall>a\<in>set xs. \<forall>b\<in>set xs. (f a = f b) = (g a = g b) \<Longrightarrow> groups_by f xs = groups_by g xs"
proof (induction xs)
  case Nil
  then show ?case by (simp add: groups_by_def)
next
  case (Cons x xs)
  then have ih: "groups_by f xs = groups_by g xs" by simp
  have 1: "filter (\<lambda>y. f y = f x) xs = filter (\<lambda>y. g y = g x) xs"
    by (rule filter_cong) (use Cons.prems in auto)
  have 2: "filter (\<lambda>gr. f (hd gr) \<noteq> f x) (groups_by g xs)
           = filter (\<lambda>gr. g (hd gr) \<noteq> g x) (groups_by g xs)"
  proof (rule filter_cong)
    fix gr assume "gr \<in> set (groups_by g xs)"
    then have "hd gr \<in> set xs" using groups_by_nonempty [of gr g xs] hd_in_set by blast
    then show "(f (hd gr) \<noteq> f x) = (g (hd gr) \<noteq> g x)" using Cons.prems by simp
  qed simp
  show ?case by (simp add: groups_by_Cons ih 1 2)
qed

lemma local_groups_are_utc_groups:
  assumes "days_agree tz fl"
  shows "map (items_of_local_day tz fl) (distinct_local_days tz fl)
         = map (items_of_day fl) (distinct_days fl)"
proof -
  from assms have "\<forall>a\<in>set fl. \<forall>b\<in>set fl. (local_day tz a = local_day tz b) = (day_of a = day_of b)"
    by (auto simp: days_agree_def list_all_iff)
  then have "groups_by (local_day tz) fl = groups_by day_of fl"
    by (rule groups_by_cong)
  then show ?thesis
    by (simp add: groups_by_def distinct_local_days_def distinct_days_def
        items_of_local_day_def items_of_day_def fun_eq_iff cong: map_cong)
qed

lemma local_day_is_utc_day:
  assumes "days_agree tz fl" and "i < length (distinct_local_days tz fl)"
  shows "i < length (distinct_days fl)"
    and "items_of_local_day tz fl (distinct_local_days tz fl ! i)
         = items_of_day fl (distinct_days fl ! i)"
proof -
  note e = local_groups_are_utc_groups [OF assms(1)]
  from e have "length (distinct_local_days tz fl) = length (distinct_days fl)"
    by (rule map_eq_imp_length_eq)
  with assms(2) show l: "i < length (distinct_days fl)" by simp
  from e have "map (items_of_local_day tz fl) (distinct_local_days tz fl) ! i
               = map (items_of_day fl) (distinct_days fl) ! i" by simp
  with assms(2) l show "items_of_local_day tz fl (distinct_local_days tz fl ! i)
         = items_of_day fl (distinct_days fl ! i)" by simp
qed

lemma format_forecast:
  assumes "formatWeatherDataFromAPI25 tz now cur fl = Inr r"
  shows "forecast r =
           map (\<lambda>d. entry_of tz (chosen_item tz (items_of_day fl d))) (take 5 (distinct_days fl))
           @ map (synthetic_day tz now cur) [min 5 (length (distinct_days fl))..<5]"
    and "\<forall>d\<in>set (take 5 (distinct_days fl)). f_weather (chosen_item tz (items_of_day fl d)) \<noteq> []"
proof -
  from assms obtain pf where
    v: "list_all (\<lambda>item. valid_time (dt item * 1000)) fl"
    and pf: "process_days tz (take 5 (grouped fl)) [] = Inr pf"
    and r: "forecast r = fill_missing tz now cur pf"
    by (auto simp: formatWeatherDataFromAPI25_def group_forecasts_start
        split: sum.splits list.splits if_splits)
  have ne: "\<forall>g\<in>set (take 5 (grouped fl)). snd g \<noteq> []"
    using grouped_nonempty [of fl] by (meson in_set_takeD)
  from process_days_Inr [OF pf ne]
  have pf_eq: "pf = map (\<lambda>g. entry_of tz (chosen_item tz (snd g))) (take 5 (grouped fl))"
    and w: "\<forall>g\<in>set (take 5 (grouped fl)). f_weather (chosen_item tz (snd g)) \<noteq> []"
    by simp_all
  have t: "take 5 (grouped fl) = map (\<lambda>d. (d, items_of_day fl d)) (take 5 (distinct_days fl))"
    by (simp add: grouped_def take_map)
  from pf_eq t have pf_eq': "pf = map (\<lambda>d. entry_of tz (chosen_item tz (items_of_day fl d)))
                                  (take 5 (distinct_days fl))"
    by (simp add: comp_def)
  then have len: "length pf = min 5 (length (distinct_days fl))" by (simp add: min.commute)
  then have "length pf \<le> 5" by simp
  from fill_missing_eq [OF this] r len pf_eq'
  show "forecast r =
           map (\<lambda>d. entry_of tz (chosen_item tz (items_of_day fl d))) (take 5 (distinct_days fl))
           @ map (synthetic_day tz now cur) [min 5 (length (distinct_days fl))..<5]"
    by simp
  from w t show "\<forall>d\<in>set (take 5 (distinct_days fl)).
      f_weather (chosen_item tz (items_of_day fl d)) \<noteq> []"
    by simp
qed

lemma format_returns:
  assumes "well_formed cur fl"
  shows "\<exists>r. formatWeatherDataFromAPI25 tz now cur fl = Inr r"
proof -
  from assms have v: "list_all (\<lambda>item. valid_time (dt item * 1000)) fl"
    and w: "\<forall>item\<in>set fl. f_weather item \<noteq> []" and c: "c_weather cur \<noteq> []"
    by (auto simp: well_formed_def list_all_iff)
  have "\<forall>g\<in>set (take 5 (grouped fl)). snd g \<noteq> [] \<and> (\<forall>item\<in>set (snd g). f_weather item \<noteq> [])"
    using grouped_nonempty [of fl] grouped_items [of _ fl] w
    by (meson in_set_takeD subsetD)
  from process_days_ok [OF this] obtain pf where
    "process_days tz (take 5 (grouped fl)) [] = Inr pf" by blast
  with v c show ?thesis
    by (auto simp: formatWeatherDataFromAPI25_def group_forecasts_start split: list.splits)
qed

lemma format_length:
  assumes "formatWeatherDataFromAPI25 tz now cur fl = Inr r"
  shows "length (forecast r) = 5"
  using format_forecast(1) [OF assms] by simp

lemma format_padding:
  assumes "formatWeatherDataFromAPI25 tz now cur fl = Inr r"
    and "length (distinct_days fl) \<le> i" and "i < 5"
  shows "forecast r ! i = synthetic_day tz now cur i"
proof -
  let ?n = "length (distinct_days fl)"
  from assms(2,3) have m: "min 5 ?n = ?n" by simp
  have l: "length (map (\<lambda>d. entry_of tz (chosen_item tz (items_of_day fl d)))
            (take 5 (distinct_days fl))) = ?n"
    using m by (simp add: min.commute)
  have "forecast r ! i = map (synthetic_day tz now cur) [?n..<5] ! (i - ?n)"
    using format_forecast(1) [OF assms(1)] l assms(2) m by (simp add: nth_append)
  also have "\<dots> = synthetic_day tz now cur i"
    using assms(2,3) by simp
  finally show ?thesis .
qed

lemma format_chosen:
  assumes "formatWeatherDataFromAPI25 tz now cur fl = Inr r"
    and "i < 5" and "i < length (distinct_days fl)"
  shows "forecast r ! i = entry_of tz (chosen_item tz (items_of_day fl (distinct_days fl ! i)))"
proof -
  have l: "i < length (take 5 (distinct_days fl))" using assms(2,3) by simp
  then show ?thesis
    using format_forecast(1) [OF assms(1)] by (simp add: nth_append)
qed

lemma wf_example: "well_formed mild_day [early_item, afternoon_item]"
  by (simp add: well_formed_def mild_day_def early_item_def afternoon_item_def valid_time_def)

lemma days_example: "distinct_days [early_item, afternoon_item] = [0]"
  by (simp add: distinct_days_def day_of_def utc_day_def early_item_def afternoon_item_def)

lemma items_example: "items_of_day [early_item, afternoon_item] 0 = [early_item, afternoon_item]"
  by (simp add: items_of_day_def day_of_def utc_day_def early_item_def afternoon_item_def)

lemma chosen_example: "chosen_item kabul_tz [early_item, afternoon_item] = afternoon_item"
  by (simp add: chosen_item_def hour_11_to_13_def getHours_def kabul_tz_def early_item_def
      afternoon_item_def)

lemma spec_chosen_example: "spec_chosen_item kabul_tz [early_item, afternoon_item] = early_item"
  by (simp add: spec_chosen_item_def spec_between_11_and_13_def kabul_tz_def early_item_def
      afternoon_item_def)

lemma entry_early: "entry_of kabul_tz early_item = \<lparr> day = ''THU'', temp = 3, condition = ''rain'' \<rparr>"
  by (simp add: entry_of_def early_item_def kabul_tz_def getDay_def DAYS_def Math_round_def
      toLowerCase_def toLowerCase_char_def)

lemma entry_afternoon:
  "entry_of kabul_tz afternoon_item = \<lparr> day = ''THU'', temp = 8, condition = ''clear'' \<rparr>"
  by (simp add: entry_of_def afternoon_item_def kabul_tz_def getDay_def DAYS_def Math_round_def
      toLowerCase_def toLowerCase_char_def)

subsection \<open>Reverse geocoding: the display name\<close>

lemma getCityFromCoords_returns:
  "\<exists>s. getCityFromCoords lat lon response = Inr s"
  by (simp add: getCityFromCoords_def split: sum.splits)

lemma getCityFromCoords_thrown:
  "getCityFromCoords_try lat lon response = Inl e \<Longrightarrow>
   getCityFromCoords lat lon response = Inr (fallback_label lat lon)"
  by (simp add: getCityFromCoords_def)

lemma getCityFromCoords_rejected:
  "getCityFromCoords lat lon Rejected = Inr (fallback_label lat lon)"
  by (simp add: getCityFromCoords_def getCityFromCoords_try_def)

lemma getCityFromCoords_not_ok:
  "getCityFromCoords lat lon (Response False st body) = Inr (fallback_label lat lon)"
  by (simp add: getCityFromCoords_def getCityFromCoords_try_def)

lemma fallback_label_near:
  "\<bar>lat - 40.7128\<bar> < 0.01 \<Longrightarrow> \<bar>lon - (- 74.0060)\<bar> < 0.01 \<Longrightarrow>
   fallback_label lat lon = ''NEW YORK, US''"
  by (simp add: fallback_label_def)

lemma fallback_label_far:
  "\<not> (\<bar>lat - 40.7128\<bar> < 0.01 \<and> \<bar>lon - (- 74.0060)\<bar> < 0.01) \<Longrightarrow>
   fallback_label lat lon = ''Current Location''"
  by (simp add: fallback_label_def)

lemma getCityFromCoords_empty:
  "getCityFromCoords lat lon (Response True st (Some (JArray []))) = Inr ''Current Location''"
  by (simp add: getCityFromCoords_def getCityFromCoords_try_def)

text \<open>
  Claim C1, at the input where the code departs from it. The claim: inside the box of
  0.01 degrees around (40.7128, -74.0060), \<^verbatim>\<open>getCityFromCoords\<close> returns
  \<^verbatim>\<open>"NEW YORK, US"\<close> whenever reverse geocoding fails, an empty result list included.
  At the centre of the box, a successful response with an empty list yields
  \<^verbatim>\<open>"Current Location"\<close>, while a rejected call and a non-success status at the same
  coordinates yield \<^verbatim>\<open>"NEW YORK, US"\<close>.
\<close>

theorem getCityFromCoords_empty_list_at_fallback_coords:
  "\<bar>(40.7128::real) - 40.7128\<bar> < 0.01 \<and> \<bar>(- 74.0060::real) - (- 74.0060)\<bar> < 0.01
   \<and> getCityFromCoords 40.7128 (- 74.0060) (Response True 200 (Some (JArray [])))
       = Inr ''Current Location''
   \<and> getCityFromCoords 40.7128 (- 74.0060) (Response True 200 (Some JNull))
       = Inr ''Current Location''
   \<and> getCityFromCoords 40.7128 (- 74.0060) Rejected = Inr ''NEW YORK, US''
   \<and> getCityFromCoords 40.7128 (- 74.0060) (Response False 401 None) = Inr ''NEW YORK, US''"
  by (simp add: getCityFromCoords_def getCityFromCoords_try_def fallback_label_def)

subsection \<open>The forecast of the canonical record\<close>

lemma fetchWeatherData_formats:
  "fetchWeatherData tz now currentResponse forecastResponse = Inr r \<Longrightarrow>
   \<exists>currentData forecastList.
     formatWeatherDataFromAPI25 tz now currentData forecastList = Inr r"
  by (auto simp: fetchWeatherData_def split: fetch_result.splits if_splits option.splits)

text \<open>
  Claim C2: the record \<^verbatim>\<open>formatWeatherDataFromAPI25\<close> produces has a forecast of
  exactly 5 entries, whatever the number of distinct days in the response; the entries
  from the number of distinct days on carry the rounded current temperature and the
  condition \<^verbatim>\<open>'cloudy'\<close>. A well-formed response does produce a record, and every
  record \<^verbatim>\<open>fetchWeatherData\<close> returns has 5 forecast entries.
\<close>

theorem forecast_has_five_entries:
  "(\<forall>r. formatWeatherDataFromAPI25 tz now currentData forecastList = Inr r \<longrightarrow>
        length (forecast r) = 5
      \<and> (\<forall>i. card (day_of ` set forecastList) \<le> i \<and> i < 5 \<longrightarrow>
             temp (forecast r ! i) = Math_round (c_temp currentData)
           \<and> condition (forecast r ! i) = ''cloudy''))
   \<and> (well_formed currentData forecastList \<longrightarrow>
        (\<exists>r. formatWeatherDataFromAPI25 tz now currentData forecastList = Inr r))
   \<and> (\<forall>r. fetchWeatherData tz now currentResponse forecastResponse = Inr r \<longrightarrow>
        length (forecast r) = 5)"
proof (intro conjI allI impI)
  fix r assume a: "formatWeatherDataFromAPI25 tz now currentData forecastList = Inr r"
  then show "length (forecast r) = 5" by (rule format_length)
  fix i assume "card (day_of ` set forecastList) \<le> i \<and> i < 5"
  then have "forecast r ! i = synthetic_day tz now currentData i"
    using format_padding [OF a, of i] by (simp add: length_distinct_days)
  then show "temp (forecast r ! i) = Math_round (c_temp currentData)"
    and "condition (forecast r ! i) = ''cloudy''"
    by (simp_all add: synthetic_day_def)
next
  assume "well_formed currentData forecastList"
  then show "\<exists>r. formatWeatherDataFromAPI25 tz now currentData forecastList = Inr r"
    by (rule format_returns)
next
  fix r assume "fetchWeatherData tz now currentResponse forecastResponse = Inr r"
  then show "length (forecast r) = 5"
    using fetchWeatherData_formats format_length by blast
qed

text \<open>One distinct day in the response: the entries 1 to 4 are synthetic.\<close>

theorem forecast_has_five_entries_witness:
  "well_formed mild_day [early_item, afternoon_item]
   \<and> card (day_of ` set [early_item, afternoon_item]) = 1
   \<and> (\<exists>r. formatWeatherDataFromAPI25 kabul_tz 0 mild_day [early_item, afternoon_item] = Inr r
          \<and> length (forecast r) = 5
          \<and> temp (forecast r ! 1) = 18 \<and> condition (forecast r ! 1) = ''cloudy''
          \<and> temp (forecast r ! 4) = 18 \<and> condition (forecast r ! 4) = ''cloudy'')"
proof -
  note t = forecast_has_five_entries [of kabul_tz 0 mild_day "[early_item, afternoon_item]"
      Rejected Rejected]
  have c: "card (day_of ` set [early_item, afternoon_item]) = 1"
    using length_distinct_days [of "[early_item, afternoon_item]"] by (simp add: days_example)
  have m: "Math_round (c_temp mild_day) = 18"
    by (simp add: mild_day_def Math_round_def)
  from t wf_example obtain r where
    r: "formatWeatherDataFromAPI25 kabul_tz 0 mild_day [early_item, afternoon_item] = Inr r"
    by blast
  with t have l: "length (forecast r) = 5"
    and p: "\<forall>i. card (day_of ` set [early_item, afternoon_item]) \<le> i \<and> i < 5 \<longrightarrow>
             temp (forecast r ! i) = Math_round (c_temp mild_day)
           \<and> condition (forecast r ! i) = ''cloudy''"
    by blast+
  from p [rule_format, of 1] p [rule_format, of 4] c m
  have "temp (forecast r ! 1) = 18 \<and> condition (forecast r ! 1) = ''cloudy''
          \<and> temp (forecast r ! 4) = 18 \<and> condition (forecast r ! 4) = ''cloudy''"
    by simp
  with r l c wf_example show ?thesis by blast
qed

lemma kabul_format:
  "formatWeatherDataFromAPI25 kabul_tz 0 mild_day [early_item, afternoon_item] = Inr kabul_record"
  by (simp add: formatWeatherDataFromAPI25_def mild_day_def early_item_def afternoon_item_def
     valid_time_def utc_day_def noonForecast_def is_noon_def getHours_def kabul_tz_def
     forecast_entry_def getDay_def DAYS_def Math_round_def toLowerCase_def toLowerCase_char_def
     toUpperCase_def toUpperCase_char_def synthetic_day_def kabul_record_def)

text \<open>
  Claim C3, as amended: for a response whose entries fall on one UTC calendar day
  exactly when they fall on one local calendar day, the entries are grouped by calendar
  day, and for each of the first 5 distinct days (in order of first appearance) the
  forecast entry is made from the first entry of that day whose local hour of the day
  is 11, 12 or 13 (local time from 11:00 up to, not including, 14:00) if there is one,
  else from the first entry of that day.
\<close>

theorem forecast_entry_chosen_by_hour:
  assumes "formatWeatherDataFromAPI25 tz now currentData forecastList = Inr r"
    and "days_agree tz forecastList"
    and "i < 5" and "i < length (distinct_local_days tz forecastList)"
  shows "forecast r ! i =
           entry_of tz (chosen_item tz
             (items_of_local_day tz forecastList (distinct_local_days tz forecastList ! i)))
         \<and> items_of_local_day tz forecastList (distinct_local_days tz forecastList ! i) \<noteq> []
         \<and> f_weather (chosen_item tz
             (items_of_local_day tz forecastList (distinct_local_days tz forecastList ! i))) \<noteq> []
         \<and> items_of_local_day tz forecastList (distinct_local_days tz forecastList ! i)
             = items_of_day forecastList (distinct_days forecastList ! i)"
proof -
  let ?d = "distinct_days forecastList ! i"
  note u = local_day_is_utc_day [OF assms(2,4)]
  have d: "?d \<in> set (take 5 (distinct_days forecastList))"
    using assms(3) u(1) by (metis in_set_conv_nth length_take min_less_iff_conj nth_take)
  have "?d \<in> set (distinct_days forecastList)"
    using u(1) by (rule nth_mem)
  then have "?d \<in> day_of ` set forecastList"
    by (simp add: set_distinct_days)
  then have "items_of_day forecastList ?d \<noteq> []"
    by (auto simp: items_of_day_def filter_empty_conv)
  moreover have "f_weather (chosen_item tz (items_of_day forecastList ?d)) \<noteq> []"
    using format_forecast(2) [OF assms(1)] d by blast
  ultimately show ?thesis
    using format_chosen [OF assms(1,3) u(1)] u(2) by simp
qed

lemma kabul_days_agree: "days_agree kabul_tz [early_item, afternoon_item]"
  by (simp add: days_agree_def day_of_def utc_day_def local_day_def kabul_tz_def
      early_item_def afternoon_item_def)

text \<open>The entry at 13:30 local time is the one chosen for its day.\<close>

theorem forecast_entry_chosen_by_hour_witness:
  "formatWeatherDataFromAPI25 kabul_tz 0 mild_day [early_item, afternoon_item] = Inr kabul_record
   \<and> days_agree kabul_tz [early_item, afternoon_item]
   \<and> (0::nat) < 5 \<and> 0 < length (distinct_local_days kabul_tz [early_item, afternoon_item])
   \<and> chosen_item kabul_tz (items_of_local_day kabul_tz [early_item, afternoon_item]
        (distinct_local_days kabul_tz [early_item, afternoon_item] ! 0)) = afternoon_item
   \<and> forecast kabul_record ! 0 = entry_of kabul_tz afternoon_item"
proof -
  have a: "(0::nat) < 5" by simp
  have l: "distinct_local_days kabul_tz [early_item, afternoon_item] = [0]"
    by (simp add: distinct_local_days_def local_day_def kabul_tz_def early_item_def
        afternoon_item_def)
  then have b: "0 < length (distinct_local_days kabul_tz [early_item, afternoon_item])"
    by simp
  have "items_of_local_day kabul_tz [early_item, afternoon_item] 0 = [early_item, afternoon_item]"
    by (simp add: items_of_local_day_def local_day_def kabul_tz_def early_item_def
        afternoon_item_def)
  then have c: "chosen_item kabul_tz (items_of_local_day kabul_tz [early_item, afternoon_item]
        (distinct_local_days kabul_tz [early_item, afternoon_item] ! 0)) = afternoon_item"
    by (simp add: l chosen_example)
  from forecast_entry_chosen_by_hour [OF kabul_format kabul_days_agree a b] c
  have "forecast kabul_record ! 0 = entry_of kabul_tz afternoon_item" by simp
  with kabul_format kabul_days_agree a b c show ?thesis by simp
qed

text \<open>
  Claim C3 as written fails: with the host clock at UTC+4:30, the day's entries are at
  04:30 and 13:30 local time. No entry lies between 11:00 and 13:00, so the claim selects
  the first entry of the day; the code selects the entry at 13:30, whose hour is 13.
\<close>

theorem forecast_entry_between_11_and_13_counterexample:
  "formatWeatherDataFromAPI25 kabul_tz 0 mild_day [early_item, afternoon_item] = Inr kabul_record
   \<and> getHours kabul_tz (dt afternoon_item * 1000) = 13
   \<and> getMinutes kabul_tz (dt afternoon_item * 1000) = 30
   \<and> spec_chosen_item kabul_tz (items_of_day [early_item, afternoon_item]
        (distinct_days [early_item, afternoon_item] ! 0)) = early_item
   \<and> forecast kabul_record ! 0 \<noteq> entry_of kabul_tz early_item"
proof -
  have "getHours kabul_tz (dt afternoon_item * 1000) = 13"
    and "getMinutes kabul_tz (dt afternoon_item * 1000) = 30"
    by (simp_all add: getHours_def getMinutes_def kabul_tz_def afternoon_item_def)
  moreover have "spec_chosen_item kabul_tz (items_of_day [early_item, afternoon_item]
        (distinct_days [early_item, afternoon_item] ! 0)) = early_item"
    by (simp add: days_example items_example spec_chosen_example)
  moreover have "forecast kabul_record ! 0 \<noteq> entry_of kabul_tz early_item"
    by (simp add: entry_early kabul_record_def)
  ultimately show ?thesis using kabul_format by simp
qed

text \<open>
  Where the two calendars part, the grouping is by the UTC date while the selection and
  the label are local: with the host clock at UTC+3, the entries at local midnight and
  local noon of one local day have different UTC dates and give two forecast entries
  with the same weekday. The amended claim says nothing about such responses.
\<close>

lemma one_local_day_two_entries:
  "local_day moscow_tz midnight_item = local_day moscow_tz noon_item
   \<and> day_of midnight_item \<noteq> day_of noon_item
   \<and> \<not> days_agree moscow_tz [midnight_item, noon_item]
   \<and> map_sum message (\<lambda>r. take 2 (forecast r))
        (formatWeatherDataFromAPI25 moscow_tz 0 mild_day [midnight_item, noon_item])
       = Inr [\<lparr> day = ''FRI'', temp = 1, condition = ''snow'' \<rparr>,
              \<lparr> day = ''FRI'', temp = 5, condition = ''clouds'' \<rparr>]"
  by (simp add: formatWeatherDataFromAPI25_def mild_day_def midnight_item_def noon_item_def
     valid_time_def utc_day_def noonForecast_def is_noon_def getHours_def moscow_tz_def
     forecast_entry_def getDay_def DAYS_def Math_round_def toLowerCase_def toLowerCase_char_def
     synthetic_day_def days_agree_def day_of_def local_day_def)

subsection \<open>Visibility\<close>

lemma fill_missing_visibility:
  "fill_missing tz now (cur\<lparr> c_visibility := v \<rparr>) pf = fill_missing tz now cur pf"
proof (induction tz now cur pf rule: fill_missing.induct)
  case (1 tz now cur pf)
  show ?case
  proof (cases "length pf < 5")
    case True
    have s: "synthetic_day tz now (cur\<lparr> c_visibility := v \<rparr>) (length pf)
              = synthetic_day tz now cur (length pf)"
      by (simp add: synthetic_day_def)
    have "fill_missing tz now (cur\<lparr> c_visibility := v \<rparr>) pf =
          fill_missing tz now (cur\<lparr> c_visibility := v \<rparr>)
            (pf @ [synthetic_day tz now cur (length pf)])"
      using True s by (subst fill_missing.simps) simp
    also have "\<dots> = fill_missing tz now cur (pf @ [synthetic_day tz now cur (length pf)])"
      using "1.IH" [OF True] .
    also have "\<dots> = fill_missing tz now cur pf"
      using True by (subst (2) fill_missing.simps) simp
    finally show ?thesis .
  next
    case False
    then show ?thesis
      by (subst fill_missing.simps, subst (2) fill_missing.simps) simp
  qed
qed

lemma format_visibility:
  "formatWeatherDataFromAPI25 tz now cur fl = Inr r \<Longrightarrow>
   visibility r = Math_round ((case c_visibility cur of None \<Rightarrow> 10000
                                | Some v \<Rightarrow> if v = 0 then 10000 else v) / 1000)"
  by (auto simp: formatWeatherDataFromAPI25_def split: sum.splits list.splits)

text \<open>
  Claim C6, as amended: the visibility of the record is the upstream value in metres
  divided by 1000 and rounded to the nearest integer, 10000 metres being assumed when
  the upstream value is absent or zero; so an absent value gives 10 and the value 8000
  gives 8.
\<close>

theorem visibility_in_kilometres:
  "(\<forall>r. formatWeatherDataFromAPI25 tz now currentData forecastList = Inr r \<longrightarrow>
        visibility r = (case c_visibility currentData of
                          None \<Rightarrow> 10
                        | Some v \<Rightarrow> if v = 0 then 10 else Math_round (v / 1000))
      \<and> (c_visibility currentData = Some 8000 \<longrightarrow> visibility r = 8))
   \<and> (well_formed currentData forecastList \<longrightarrow>
        (\<exists>r. formatWeatherDataFromAPI25 tz now currentData forecastList = Inr r))"
proof (intro conjI allI impI)
  fix r assume a: "formatWeatherDataFromAPI25 tz now currentData forecastList = Inr r"
  from format_visibility [OF a]
  show "visibility r = (case c_visibility currentData of
                          None \<Rightarrow> 10
                        | Some v \<Rightarrow> if v = 0 then 10 else Math_round (v / 1000))"
    by (simp add: Math_round_def split: option.splits)
  assume "c_visibility currentData = Some 8000"
  with format_visibility [OF a] show "visibility r = 8"
    by (simp add: Math_round_def)
next
  assume "well_formed currentData forecastList"
  then show "\<exists>r. formatWeatherDataFromAPI25 tz now currentData forecastList = Inr r"
    by (rule format_returns)
qed

text \<open>A response with visibility 8000, and the same response without a visibility.\<close>

theorem visibility_in_kilometres_witness:
  "c_visibility mild_day = Some 8000
   \<and> formatWeatherDataFromAPI25 kabul_tz 0 mild_day [early_item, afternoon_item] = Inr kabul_record
   \<and> visibility kabul_record = 8
   \<and> well_formed (mild_day\<lparr> c_visibility := None \<rparr>) [early_item]
   \<and> (\<exists>r. formatWeatherDataFromAPI25 kabul_tz 0 (mild_day\<lparr> c_visibility := None \<rparr>) [early_item]
            = Inr r \<and> visibility r = 10)"
proof -
  have a: "c_visibility mild_day = Some 8000" by (simp add: mild_day_def)
  from visibility_in_kilometres [of kabul_tz 0 mild_day "[early_item, afternoon_item]"]
    kabul_format a
  have b: "visibility kabul_record = 8" by blast
  have c: "well_formed (mild_day\<lparr> c_visibility := None \<rparr>) [early_item]"
    by (simp add: well_formed_def mild_day_def early_item_def valid_time_def)
  have d: "c_visibility (mild_day\<lparr> c_visibility := None \<rparr>) = None" by simp
  from visibility_in_kilometres [of kabul_tz 0 "mild_day\<lparr> c_visibility := None \<rparr>" "[early_item]"]
    c obtain r where
    r: "formatWeatherDataFromAPI25 kabul_tz 0 (mild_day\<lparr> c_visibility := None \<rparr>) [early_item] = Inr r"
    by blast
  with visibility_in_kilometres [of kabul_tz 0 "mild_day\<lparr> c_visibility := None \<rparr>" "[early_item]"]
  have "visibility r = (case c_visibility (mild_day\<lparr> c_visibility := None \<rparr>) of
                          None \<Rightarrow> 10
                        | Some v \<Rightarrow> if v = 0 then 10 else Math_round (v / 1000))"
    by blast
  with d have "visibility r = 10" by simp
  with a b c r kabul_format show ?thesis by blast
qed

text \<open>
  Claim C6 as written fails: for an upstream visibility that is present and equal to 0
  metres the record says 10 kilometres, where the value divided by 1000 and rounded
  is 0.
\<close>

theorem visibility_of_zero_metres_counterexample:
  "c_visibility foggy_day = Some 0
   \<and> formatWeatherDataFromAPI25 kabul_tz 0 foggy_day [] = Inr foggy_record
   \<and> visibility foggy_record = 10
   \<and> spec_visibilityKm (c_visibility foggy_day) = 0"
  by (simp add: formatWeatherDataFromAPI25_def foggy_day_def foggy_record_def Math_round_def
      spec_visibilityKm_def synthetic_day_def getDay_def kabul_tz_def DAYS_def
      toUpperCase_def toUpperCase_char_def)

text \<open>
  Claim C10: when the current conditions report a visibility of exactly 0 metres, the
  visibility of the record is 10, and the record is the one an absent visibility gives.
\<close>

theorem zero_visibility_reads_as_absent:
  assumes "c_visibility currentData = Some 0"
  shows "(\<forall>r. formatWeatherDataFromAPI25 tz now currentData forecastList = Inr r \<longrightarrow>
            visibility r = 10)
       \<and> (well_formed currentData forecastList \<longrightarrow>
            (\<exists>r. formatWeatherDataFromAPI25 tz now currentData forecastList = Inr r
                  \<and> visibility r = 10))
       \<and> formatWeatherDataFromAPI25 tz now currentData forecastList =
           formatWeatherDataFromAPI25 tz now (currentData\<lparr> c_visibility := None \<rparr>) forecastList"
proof -
  have 1: "visibility r = 10"
    if "formatWeatherDataFromAPI25 tz now currentData forecastList = Inr r" for r
    using format_visibility [OF that] assms by (simp add: Math_round_def)
  have 2: "\<exists>r. formatWeatherDataFromAPI25 tz now currentData forecastList = Inr r
                  \<and> visibility r = 10"
    if "well_formed currentData forecastList"
    using format_returns [OF that, of tz now] 1 by blast
  have 3: "formatWeatherDataFromAPI25 tz now currentData forecastList =
           formatWeatherDataFromAPI25 tz now (currentData\<lparr> c_visibility := None \<rparr>) forecastList"
    using assms
    by (simp add: formatWeatherDataFromAPI25_def fill_missing_visibility
        del: fill_missing.simps split: sum.splits list.splits)
  from 1 2 3 show ?thesis by blast
qed

theorem zero_visibility_reads_as_absent_witness:
  "c_visibility foggy_day = Some 0 \<and> well_formed foggy_day [early_item]
   \<and> (\<exists>r. formatWeatherDataFromAPI25 kabul_tz 0 foggy_day [early_item] = Inr r
          \<and> visibility r = 10)"
proof -
  have a: "c_visibility foggy_day = Some 0" by (simp add: foggy_day_def)
  have b: "well_formed foggy_day [early_item]"
    by (simp add: well_formed_def foggy_day_def early_item_def valid_time_def)
  from zero_visibility_reads_as_absent [OF a, of kabul_tz 0 "[early_item]"] a b
  show ?thesis by blast
qed

subsection \<open>The geolocation hook\<close>

lemma sublist_after_space: "sublist t (m @ CHR '' '' # t)"
proof -
  have "m @ CHR '' '' # t = (m @ [CHR '' '']) @ t @ []" by simp
  then show ?thesis unfolding sublist_def by blast
qed

lemma useFallbackLocation_state:
  "state (useFallbackLocation m h) =
     \<lparr> coordinates = Some (40.7128, - 74.0060),
       error = Some (m @ '' Using default location instead.''),
       loading = False, permissionGranted = Some True, permissionState = Some ''fallback'' \<rparr>"
  by (simp add: useFallbackLocation_def setState_def fallbackCoords_def)

lemma errorCallback_fallback:
  "code \<noteq> 1 \<Longrightarrow> \<exists>m. errorCallback code msg h = useFallbackLocation m h"
  by (auto simp: errorCallback_def)

lemma requestPosition_error:
  "position nav = PositionError code msg \<Longrightarrow>
   state (requestPosition nav h) = state (errorCallback code msg h)"
  by (simp add: requestPosition_def Let_def errorCallback_def useFallbackLocation_def setState_def)

lemma run_reaches_position:
  "geolocation nav \<Longrightarrow> permissions nav \<noteq> Some (QueryResolves ''denied'') \<Longrightarrow>
   \<exists>h'. requestGeolocation nav h = requestPosition nav h' \<and> isFirefox h' = isFirefox h"
  by (auto simp: requestGeolocation_def checkPermissionAndGetLocation_def Let_def setState_def
      split: option.splits permission_query.splits)

text \<open>
  Claim C4: when the position request fails with a code other than 1 (so with code 2,
  with code 3, the timeout, or with any other code), the state becomes the fallback
  state: coordinates (40.7128, -74.0060), loading false, and an error message that
  contains \<^verbatim>\<open>Using default location instead.\<close> This is what the error callback
  sets, and it is the state a run of \<^verbatim>\<open>requestGeolocation\<close> ends in when its position
  request fails so.
\<close>

theorem position_failure_uses_fallback:
  assumes "code \<noteq> 1"
  shows "\<exists>e. state (errorCallback code msg h) =
           \<lparr> coordinates = Some (40.7128, - 74.0060), error = Some e, loading = False,
             permissionGranted = Some True, permissionState = Some ''fallback'' \<rparr>
         \<and> sublist ''Using default location instead.'' e
         \<and> (geolocation nav \<and> permissions nav \<noteq> Some (QueryResolves ''denied'')
              \<and> position nav = PositionError code msg
            \<longrightarrow> state (requestGeolocation nav h) = state (errorCallback code msg h))"
proof -
  from assms obtain m where m: "errorCallback code msg h = useFallbackLocation m h"
    using errorCallback_fallback by blast
  let ?e = "m @ '' Using default location instead.''"
  have 1: "state (errorCallback code msg h) =
           \<lparr> coordinates = Some (40.7128, - 74.0060), error = Some ?e, loading = False,
             permissionGranted = Some True, permissionState = Some ''fallback'' \<rparr>"
    unfolding m by (rule useFallbackLocation_state)
  have 2: "sublist ''Using default location instead.'' ?e"
    using sublist_after_space [of "''Using default location instead.''" m] by simp
  have 3: "state (requestGeolocation nav h) = state (errorCallback code msg h)"
    if a: "geolocation nav" "permissions nav \<noteq> Some (QueryResolves ''denied'')"
          "position nav = PositionError code msg"
  proof -
    obtain h' where h': "requestGeolocation nav h = requestPosition nav h'"
        "isFirefox h' = isFirefox h"
      using run_reaches_position [OF a(1,2)] by blast
    have "state (requestPosition nav h') = state (errorCallback code msg h')"
      using a(3) by (rule requestPosition_error)
    also have "\<dots> = state (errorCallback code msg h)"
      using h'(2) by (simp add: errorCallback_def useFallbackLocation_def setState_def)
    finally show ?thesis using h'(1) by simp
  qed
  from 1 2 3 show ?thesis by blast
qed

text \<open>The timeout: a run whose position request fails with code 3.\<close>

theorem position_failure_uses_fallback_witness:
  "(3::int) \<noteq> 1 \<and> geolocation timeout_run
   \<and> permissions timeout_run \<noteq> Some (QueryResolves ''denied'')
   \<and> position timeout_run = PositionError 3 ''Timeout expired''
   \<and> (\<exists>e. state (requestGeolocation timeout_run fresh_hook)
        = \<lparr> coordinates = Some (40.7128, - 74.0060), error = Some e, loading = False,
            permissionGranted = Some True, permissionState = Some ''fallback'' \<rparr>
      \<and> sublist ''Using default location instead.'' e)"
proof -
  have a: "(3::int) \<noteq> 1" by simp
  have b: "geolocation timeout_run \<and> permissions timeout_run \<noteq> Some (QueryResolves ''denied'')
           \<and> position timeout_run = PositionError 3 ''Timeout expired''"
    by (simp add: timeout_run_def)
  from position_failure_uses_fallback [OF a, of "''Timeout expired''" fresh_hook timeout_run] b
  show ?thesis by auto
qed

text \<open>
  Claim C5: in a run of \<^verbatim>\<open>requestGeolocation\<close> whose permission query reports
  \<^verbatim>\<open>denied\<close>, the state becomes the denied state (coordinates null, permissionGranted
  false, permissionState \<^verbatim>\<open>denied\<close>, loading false), and the run consists of setting
  loading, the permission query and setting the denied state: no position request is
  issued.
\<close>

theorem denied_query_issues_no_position_request:
  assumes "geolocation nav" and "permissions nav = Some (QueryResolves ''denied'')"
  shows "\<exists>msg. state (requestGeolocation nav h) =
            \<lparr> coordinates = None, error = Some msg, loading = False,
              permissionGranted = Some False, permissionState = Some ''denied'' \<rparr>
          \<and> events (requestGeolocation nav h) =
              events h @ [SetState ((state h)\<lparr> loading := True \<rparr>), PermissionsQuery,
                          SetState (state (requestGeolocation nav h))]
          \<and> (\<forall>opts. GetCurrentPosition opts \<notin>
                set (drop (length (events h)) (events (requestGeolocation nav h))))"
  using assms
  by (simp add: requestGeolocation_def checkPermissionAndGetLocation_def Let_def setState_def
      deniedState_def)

theorem denied_query_issues_no_position_request_witness:
  "geolocation denied_run \<and> permissions denied_run = Some (QueryResolves ''denied'')
   \<and> state (requestGeolocation denied_run fresh_hook) =
       \<lparr> coordinates = None,
         error = Some ''Permission denied. Please allow location access in your browser settings.'',
         loading = False, permissionGranted = Some False, permissionState = Some ''denied'' \<rparr>
   \<and> GetCurrentPosition (geoOptions_of False)
       \<notin> set (events (requestGeolocation denied_run fresh_hook))"
proof -
  have a: "geolocation denied_run"
    and b: "permissions denied_run = Some (QueryResolves ''denied'')"
    by (simp_all add: denied_run_def)
  from denied_query_issues_no_position_request [OF a b, of fresh_hook] obtain msg where
    s: "state (requestGeolocation denied_run fresh_hook) =
          \<lparr> coordinates = None, error = Some msg, loading = False,
            permissionGranted = Some False, permissionState = Some ''denied'' \<rparr>"
    and e: "events (requestGeolocation denied_run fresh_hook) =
              events fresh_hook @ [SetState ((state fresh_hook)\<lparr> loading := True \<rparr>),
                PermissionsQuery, SetState (state (requestGeolocation denied_run fresh_hook))]"
    by blast
  have m: "error (state (requestGeolocation denied_run fresh_hook)) =
      Some ''Permission denied. Please allow location access in your browser settings.''"
    by (simp add: requestGeolocation_def checkPermissionAndGetLocation_def Let_def setState_def
      deniedState_def denied_run_def fresh_hook_def)
  from s m have "msg = ''Permission denied. Please allow location access in your browser settings.''"
    by simp
  with s e a b show ?thesis by (simp add: fresh_hook_def)
qed

lemma requestPosition_granted:
  "permissionState (state h) = Some ''fallback'' \<longrightarrow> permissionGranted (state h) = Some True \<Longrightarrow>
   permissionState (state (requestPosition nav h)) = Some ''fallback'' \<Longrightarrow>
   permissionGranted (state (requestPosition nav h)) = Some True"
  by (cases "position nav")
     (auto simp: requestPosition_def Let_def successCallback_def errorCallback_def
        useFallbackLocation_def setState_def deniedState_def split: if_splits)

text \<open>
  Claim C9: \<^verbatim>\<open>useFallbackLocation\<close> sets permissionGranted to true together with the
  permissionState \<^verbatim>\<open>fallback\<close>; and a run of \<^verbatim>\<open>requestGeolocation\<close> that ends with
  permissionState \<^verbatim>\<open>fallback\<close> ends with permissionGranted true (the state it starts
  from being one a run can have left).
\<close>

theorem fallback_reports_permission_granted:
  "permissionGranted (state (useFallbackLocation m h)) = Some True
   \<and> permissionState (state (useFallbackLocation m h)) = Some ''fallback''
   \<and> ((permissionState (state h) = Some ''fallback'' \<longrightarrow> permissionGranted (state h) = Some True)
        \<and> permissionState (state (requestGeolocation nav h)) = Some ''fallback''
      \<longrightarrow> permissionGranted (state (requestGeolocation nav h)) = Some True)"
proof -
  have 1: "permissionGranted (state (useFallbackLocation m h)) = Some True
           \<and> permissionState (state (useFallbackLocation m h)) = Some ''fallback''"
    by (simp add: useFallbackLocation_state)
  have 2: "permissionGranted (state (requestGeolocation nav h)) = Some True"
    if inv: "permissionState (state h) = Some ''fallback'' \<longrightarrow> permissionGranted (state h) = Some True"
      and fb: "permissionState (state (requestGeolocation nav h)) = Some ''fallback''"
  proof (cases "geolocation nav \<and> permissions nav \<noteq> Some (QueryResolves ''denied'')")
    case True
    let ?h1 = "setState (\<lambda>prev. prev\<lparr> loading := True \<rparr>) (h\<lparr> attemptCount := attemptCount h + 1 \<rparr>)"
    let ?h2 = "?h1\<lparr> events := events ?h1 @ [PermissionsQuery] \<rparr>"
    from True have r: "requestGeolocation nav h = requestPosition nav ?h1
                       \<or> requestGeolocation nav h = requestPosition nav ?h2"
      by (auto simp: requestGeolocation_def checkPermissionAndGetLocation_def Let_def
          split: option.splits permission_query.splits)
    have i1: "permissionState (state ?h1) = Some ''fallback'' \<longrightarrow>
              permissionGranted (state ?h1) = Some True"
      and i2: "permissionState (state ?h2) = Some ''fallback'' \<longrightarrow>
              permissionGranted (state ?h2) = Some True"
      using inv by (simp_all add: setState_def)
    from r show ?thesis
    proof
      assume e: "requestGeolocation nav h = requestPosition nav ?h1"
      with fb requestPosition_granted [OF i1, of nav] show ?thesis by simp
    next
      assume e: "requestGeolocation nav h = requestPosition nav ?h2"
      with fb requestPosition_granted [OF i2, of nav] show ?thesis by simp
    qed
  next
    case False
    with fb show ?thesis
      by (auto simp: requestGeolocation_def checkPermissionAndGetLocation_def Let_def
          setState_def deniedState_def split: if_splits)
  qed
  from 1 2 show ?thesis by blast
qed

theorem fallback_reports_permission_granted_witness:
  "permissionState (state fresh_hook) \<noteq> Some ''fallback''
   \<and> permissionState (state (requestGeolocation timeout_run fresh_hook)) = Some ''fallback''
   \<and> permissionGranted (state (requestGeolocation timeout_run fresh_hook)) = Some True"
proof -
  have a: "permissionState (state fresh_hook) \<noteq> Some ''fallback''"
    by (simp add: fresh_hook_def initialState_def)
  have b: "permissionState (state (requestGeolocation timeout_run fresh_hook)) = Some ''fallback''"
    by (simp add: requestGeolocation_def checkPermissionAndGetLocation_def Let_def setState_def
      requestPosition_def errorCallback_def useFallbackLocation_def timeout_run_def fresh_hook_def)
  from fallback_reports_permission_granted [of "''x''" fresh_hook timeout_run] a b
  show ?thesis by simp
qed

subsection \<open>The page component\<close>

text \<open>
  Claim C7: when \<^verbatim>\<open>fetchWeatherByCoordinates\<close> fails (the weather fetch throws, or
  the display-name resolution does): if no record is held, the fallback record is
  substituted and the error message is set; if a record is held, it is kept and no
  error is set. Loading ends false either way.
\<close>

theorem fetch_failure_keeps_or_substitutes:
  assumes "fetchWD lat lon = Inl err
           \<or> (fetchWD lat lon = Inr data \<and> getCity lat lon = Inl err)"
  shows "(weatherData p = None \<longrightarrow>
            weatherData (fetchWeatherByCoordinates fetchWD getCity lat lon p) = Some fallbackWeatherData
          \<and> pageError (fetchWeatherByCoordinates fetchWD getCity lat lon p) =
              Some (''Failed to fetch weather data: ''
                    @ (if message err = [] then ''Please try again.'' else message err)))
       \<and> (weatherData p \<noteq> None \<longrightarrow>
            weatherData (fetchWeatherByCoordinates fetchWD getCity lat lon p) = weatherData p
          \<and> pageError (fetchWeatherByCoordinates fetchWD getCity lat lon p) = None)
       \<and> pageLoading (fetchWeatherByCoordinates fetchWD getCity lat lon p) = False
       \<and> searchQuery (fetchWeatherByCoordinates fetchWD getCity lat lon p) = searchQuery p"
  using assms
  by (auto simp: fetchWeatherByCoordinates_def fetch_failed_def Let_def)

lemma show_nat_503: "show_nat 503 = ''503''"
  by (simp add: digit_char_def)

lemma service_down_fails:
  "service_down lat lon = Inl (Error ''Weather API 2.5 current error: 503'')"
  by (simp add: service_down_def fetchWeatherData_def show_nat_503 del: show_nat.simps)

theorem fetch_failure_keeps_or_substitutes_witness:
  "service_down 40.7128 (- 74.0060) = Inl (Error ''Weather API 2.5 current error: 503'')
   \<and> weatherData empty_page = None
   \<and> weatherData (fetchWeatherByCoordinates service_down no_city 40.7128 (- 74.0060) empty_page)
       = Some fallbackWeatherData
   \<and> pageError (fetchWeatherByCoordinates service_down no_city 40.7128 (- 74.0060) empty_page)
       = Some ''Failed to fetch weather data: Weather API 2.5 current error: 503''
   \<and> weatherData (empty_page\<lparr> weatherData := Some kabul_record \<rparr>) \<noteq> None
   \<and> weatherData (fetchWeatherByCoordinates service_down no_city 40.7128 (- 74.0060)
         (empty_page\<lparr> weatherData := Some kabul_record \<rparr>)) = Some kabul_record
   \<and> pageError (fetchWeatherByCoordinates service_down no_city 40.7128 (- 74.0060)
         (empty_page\<lparr> weatherData := Some kabul_record \<rparr>)) = None"
proof -
  have a: "service_down 40.7128 (- 74.0060) = Inl (Error ''Weather API 2.5 current error: 503'')
           \<or> (service_down 40.7128 (- 74.0060) = Inr kabul_record
               \<and> no_city 40.7128 (- 74.0060) = Inl (Error ''Weather API 2.5 current error: 503''))"
    by (simp add: service_down_fails)
  have b: "weatherData empty_page = None" by (simp add: empty_page_def)
  note c = fetch_failure_keeps_or_substitutes [where fetchWD = service_down and getCity = no_city
      and lat = "40.7128" and lon = "- 74.0060"
      and err = "Error ''Weather API 2.5 current error: 503''"
      and data = kabul_record, OF a]
  from c [of empty_page] c [of "empty_page\<lparr> weatherData := Some kabul_record \<rparr>"] b
  show ?thesis by (simp add: service_down_fails)
qed

lemma trim_empty_iff: "trim s = [] \<longleftrightarrow> (\<forall>c\<in>set s. is_whitespace c)"
proof
  assume t: "trim s = []"
  then have a: "\<forall>c\<in>set (dropWhile is_whitespace s). is_whitespace c"
    by (simp add: trim_def)
  have "dropWhile is_whitespace s = []"
  proof (rule ccontr)
    assume n: "dropWhile is_whitespace s \<noteq> []"
    then have "\<not> is_whitespace (hd (dropWhile is_whitespace s))"
      by (rule hd_dropWhile)
    moreover have "hd (dropWhile is_whitespace s) \<in> set (dropWhile is_whitespace s)"
      using n by simp
    ultimately show False using a by blast
  qed
  then show "\<forall>c\<in>set s. is_whitespace c"
    by simp
next
  assume "\<forall>c\<in>set s. is_whitespace c"
  then have "dropWhile is_whitespace s = []"
    by simp
  then show "trim s = []"
    unfolding trim_def by (simp del: dropWhile_eq_Nil_conv)
qed

text \<open>
  Claim C8: a search whose text is empty or consists of white space only leaves the
  whole state as it is, the list of calls made on the service included; a search whose
  text is not blank and whose lookup fails leaves the weather record untouched and
  sets the error to the location-not-found message.
\<close>

theorem blank_search_changes_nothing:
  "(list_all is_whitespace (searchQuery p) \<longrightarrow> handleSearch fetchByCity p = p)
   \<and> (\<not> list_all is_whitespace (searchQuery p) \<and> fetchByCity (searchQuery p) = Inl err \<longrightarrow>
        handleSearch fetchByCity p =
          p\<lparr> pageLoading := False,
             pageError := Some ''Location not found. Please try another search term.'',
             requests := requests p @ [FetchWeatherByCity (searchQuery p)] \<rparr>
        \<and> weatherData (handleSearch fetchByCity p) = weatherData p)"
  by (simp add: handleSearch_def Let_def trim_empty_iff [symmetric] list_all_iff)

text \<open>
  A search for a space, a tab and an ideographic space; and a search for \<^verbatim>\<open>" Atl"\<close>
  that finds nothing, on a page that holds a record.
\<close>

theorem blank_search_changes_nothing_witness:
  "list_all is_whitespace (searchQuery blank_page)
   \<and> handleSearch city_unknown blank_page = blank_page
   \<and> \<not> list_all is_whitespace (searchQuery atlantis_page)
   \<and> city_unknown (searchQuery atlantis_page) = Inl (Error ''City not found'')
   \<and> weatherData (handleSearch city_unknown atlantis_page) = Some fallbackWeatherData
   \<and> pageError (handleSearch city_unknown atlantis_page)
       = Some ''Location not found. Please try another search term.''"
proof -
  have a: "list_all is_whitespace (searchQuery blank_page)"
    by (simp add: blank_page_def empty_page_def is_whitespace_def)
  have b: "\<not> list_all is_whitespace (searchQuery atlantis_page)"
    by (simp add: atlantis_page_def empty_page_def is_whitespace_def)
  have c: "city_unknown (searchQuery atlantis_page) = Inl (Error ''City not found'')"
    by (simp add: city_unknown_def)
  have d: "weatherData atlantis_page = Some fallbackWeatherData"
    by (simp add: atlantis_page_def)
  from blank_search_changes_nothing [of blank_page city_unknown] a
  have 1: "handleSearch city_unknown blank_page = blank_page" by blast
  from blank_search_changes_nothing [of atlantis_page city_unknown "Error ''City not found''"] b c
  have 2: "handleSearch city_unknown atlantis_page =
          atlantis_page\<lparr> pageLoading := False,
             pageError := Some ''Location not found. Please try another search term.'',
             requests := requests atlantis_page @ [FetchWeatherByCity (searchQuery atlantis_page)] \<rparr>
        \<and> weatherData (handleSearch city_unknown atlantis_page) = weatherData atlantis_page"
    by blast
  from 2 have 3: "pageError (handleSearch city_unknown atlantis_page)
       = Some ''Location not found. Please try another search term.''" by simp
  from a b c d 1 2 3 show ?thesis by simp
qed

end
